theory Spec2Isabelle
  imports Main "HOL-Library.Sublist" "HOL-Library.AList"
begin

section \<open>Emergency classifier\<close>

text \<open>
  Utterance text is a \<^typ>\<open>string\<close>. \<open>str.lower\<close> is modelled on the ASCII letters
  (A-Z are moved to a-z, every other character is kept).
\<close>

definition lower_char :: "char \<Rightarrow> char" where
  "lower_char c =
     (let n = (of_char c :: nat) in if 65 \<le> n \<and> n \<le> 90 then char_of (n + 32) else c)"

definition lower :: "string \<Rightarrow> string" where
  "lower text = map lower_char text"

definition EMERGENCY_KEYWORDS :: "string list" where
  "EMERGENCY_KEYWORDS =
     [''burst'', ''flooding'', ''leak'', ''emergency'', ''urgent'', ''water everywhere'']"

text \<open>\<open>keyword in text_lower\<close> is the substring test, \<open>any\<close> is \<^const>\<open>list_ex\<close>.\<close>

definition detect_emergency :: "string \<Rightarrow> bool" where
  "detect_emergency text =
     (let text_lower = lower text
      in list_ex (\<lambda>keyword. sublist keyword text_lower) EMERGENCY_KEYWORDS)"

section \<open>Values, sessions and the store\<close>

text \<open>
  What \<open>json.loads\<close> can return: \<open>None\<close>, booleans, numbers, strings, lists and dicts.
  A float is kept up to whether it is nonzero, which is all the handlers ask of one.
  The same type carries the values of \<open>data.get('from')\<close> (a string or \<open>None\<close>).
\<close>

datatype json =
    JNull
  | JBool bool
  | JInt int
  | JFloat bool
  | JStr string
  | JArr "json list"
  | JObj "(string \<times> json) list"

datatype error = KeyError | AttributeError | OracleError

datatype completion = Raises | Returns string

datatype message = Message (role: string) (content: string)

datatype verb = Gather string | Say string | Hangup

type_synonym sid = "string option"
type_synonym timestamp = int

text \<open>
  One entry of \<open>call_data\<close>. The keys \<open>is_emergency\<close>, \<open>booking_info\<close>, \<open>status\<close> and
  \<open>ended_at\<close> are absent until a handler stores them (\<open>None\<close>); the values of \<open>from\<close> and
  \<open>status\<close> come from \<open>request.form.get\<close> and may themselves be \<open>None\<close>.
\<close>

record call_entry =
  from_number :: "string option"
  started_at :: timestamp
  conversation :: "string list"
  is_emergency :: "bool option"
  booking_info :: "json option"
  status :: "string option option"
  ended_at :: "timestamp option"

text \<open>The body of the confirmation message is kept as the two values it interpolates.\<close>

record sms =
  to :: json
  sms_appointment_time :: json
  sms_issue :: json

record dashboard_data =
  clientName :: json
  phone :: json
  issue :: json
  urgency :: string
  appointmentTime :: json
  dash_status :: string
  duration :: int
  transcript :: string

text \<open>
  The two module-level dicts, in insertion order, with the calls made to
  \<open>twilio_client.messages.create\<close> and the records printed by \<open>save_to_dashboard\<close>.
\<close>

record state =
  conversations :: "(sid \<times> message list) list"
  call_data :: "(sid \<times> call_entry) list"
  sms_outbox :: "sms list"
  dashboard :: "dashboard_data list"

definition init_state :: state where
  "init_state = \<lparr>conversations = [], call_data = [], sms_outbox = [], dashboard = []\<rparr>"

text \<open>What one request sees of the outside: the two oracle calls, the parser and the clock.\<close>

record request_env =
  chat_oracle :: "message list \<Rightarrow> completion"
  extract_oracle :: "string \<Rightarrow> completion"
  json_loads :: "string \<Rightarrow> json option"
  now_started :: timestamp
  now_ended :: timestamp

fun truthy :: "json \<Rightarrow> bool" where
  "truthy JNull = False"
| "truthy (JBool b) = b"
| "truthy (JInt n) = (n \<noteq> 0)"
| "truthy (JFloat nz) = nz"
| "truthy (JStr s) = (s \<noteq> [])"
| "truthy (JArr xs) = (xs \<noteq> [])"
| "truthy (JObj kvs) = (kvs \<noteq> [])"

text \<open>\<open>d.get(key, default)\<close> on the items of a dict.\<close>

definition get_or :: "(string \<times> json) list \<Rightarrow> string \<Rightarrow> json \<Rightarrow> json" where
  "get_or kvs key dflt = (case map_of kvs key of Some v \<Rightarrow> v | None \<Rightarrow> dflt)"

text \<open>\<open>data = call_data.get(call_sid, {})\<close> and the reads the helpers make of it.\<close>

definition data_from :: "call_entry option \<Rightarrow> json" where
  "data_from data =
     (case data of None \<Rightarrow> JNull
      | Some d \<Rightarrow> (case from_number d of None \<Rightarrow> JNull | Some n \<Rightarrow> JStr n))"

definition data_booking_info :: "call_entry option \<Rightarrow> json" where
  "data_booking_info data =
     (case data of None \<Rightarrow> JObj []
      | Some d \<Rightarrow> (case booking_info d of None \<Rightarrow> JObj [] | Some b \<Rightarrow> b))"

definition data_is_emergency :: "call_entry option \<Rightarrow> bool" where
  "data_is_emergency data =
     (case data of None \<Rightarrow> False
      | Some d \<Rightarrow> (case is_emergency d of None \<Rightarrow> False | Some b \<Rightarrow> b))"

definition data_conversation :: "call_entry option \<Rightarrow> string list" where
  "data_conversation data = (case data of None \<Rightarrow> [] | Some d \<Rightarrow> conversation d)"

text \<open>\<open>"\\n".join(lines)\<close>.\<close>

fun join_lines :: "string list \<Rightarrow> string" where
  "join_lines [] = []"
| "join_lines [l] = l"
| "join_lines (l # ls) = l @ [CHR 0x0A] @ join_lines ls"

section \<open>Oracle calls\<close>

definition system_prompt :: string where
  \<open>system_prompt = join_lines
     [''You are a professional receptionist for a plumbing business. '',
      ''    Your job is to:'',
      ''    1. Greet callers warmly'',
      ''    2. Ask about their plumbing issue'',
      ''    3. Collect their name, phone number (if different from caller ID), and address'',
      ''    4. Ask about their preferred appointment time'',
      ''    5. Confirm the booking'',
      ''    6. Be empathetic if it's an emergency'',
      ''    '',
      ''    Keep responses SHORT (1-2 sentences max) since this is a phone call.'',
      ''    Always be professional, helpful, and efficient.'',
      ''    '',
      ''    If they mention emergency keywords like 'burst pipe', 'flooding', 'leak', prioritize them immediately.'',
      ''    '']\<close>

text \<open>
  The history handed over already ends with the caller's utterance, and the utterance is
  appended once more. The model name and the generation parameters stay with the oracle.
\<close>

definition get_ai_response ::
  "(message list \<Rightarrow> completion) \<Rightarrow> message list \<Rightarrow> string \<Rightarrow> completion" where
  "get_ai_response oracle_chat conversation_history user_input =
     oracle_chat (Message ''system'' system_prompt # conversation_history
                    @ [Message ''user'' user_input])"

definition extraction_prompt :: "string \<Rightarrow> string" where
  \<open>extraction_prompt conversation_text = join_lines
     [''Extract the following information from this phone conversation:'',
      ''    - Customer name'',
      ''    - Phone number (if mentioned)'',
      ''    - Address'',
      ''    - Issue/problem description'',
      ''    - Preferred appointment time'',
      ''    - Is this an emergency? (yes/no)'',
      ''    '',
      ''    Conversation:'',
      ''    '' @ conversation_text,
      ''    '',
      ''    Return as JSON with keys: name, phone, address, issue, appointment_time, is_emergency'',
      ''    If information is missing, use "Not provided" as the value.'',
      ''    '']\<close>

definition default_booking :: json where
  "default_booking = JObj
     [(''name'', JStr ''Not provided''),
      (''phone'', JStr ''Not provided''),
      (''address'', JStr ''Not provided''),
      (''issue'', JStr ''Not provided''),
      (''appointment_time'', JStr ''Not provided''),
      (''is_emergency'', JStr ''no'')]"

text \<open>
  The oracle call stands before the \<open>try\<close>: when it raises, so does the extractor. Inside the
  \<open>try\<close>, whatever \<open>json.loads\<close> returns is returned as it is, and any exception gives the
  default record. The parser is a parameter; \<open>None\<close> is its exception.
\<close>

definition extract_booking_info ::
  "(string \<Rightarrow> completion) \<Rightarrow> (string \<Rightarrow> json option) \<Rightarrow> string \<Rightarrow> error + json" where
  "extract_booking_info oracle_extract parse conversation_text =
     (case oracle_extract (extraction_prompt conversation_text) of
        Raises \<Rightarrow> Inl OracleError
      | Returns response_content \<Rightarrow>
          (case parse response_content of
             Some parsed \<Rightarrow> Inr parsed
           | None \<Rightarrow> Inr default_booking))"

section \<open>Handlers\<close>

definition greeting :: string where
  "greeting = ''Hello! Thank you for calling. How can I help you today?''"

definition no_input :: string where
  \<open>no_input = ''I didn't hear anything. Please give us a call back.''\<close>

definition closing :: string where
  \<open>closing = ''Perfect! I've got all your details. We'll see you at your appointment. ''
     @ ''You'll receive a confirmation SMS shortly. Thank you for calling!''\<close>

text \<open>\<open>/voice\<close>: both dicts get their entry when the identifier is not yet in \<open>conversations\<close>.\<close>

definition voice :: "sid \<Rightarrow> string option \<Rightarrow> timestamp \<Rightarrow> state \<Rightarrow> state \<times> verb list" where
  "voice call_sid from_num now s =
     (let s' =
        (if call_sid \<notin> fst ` set (conversations s)
         then s\<lparr>conversations := AList.update call_sid [] (conversations s),
                call_data := AList.update call_sid
                  \<lparr>from_number = from_num, started_at = now, conversation = [],
                   is_emergency = None, booking_info = None, status = None, ended_at = None\<rparr>
                  (call_data s)\<rparr>
         else s)
      in (s', [Gather greeting, Say no_input]))"

text \<open>
  \<open>send_confirmation_sms\<close>: \<open>booking_info.get\<close> raises on a value that is not a dict. The
  call to the message service sits in a \<open>try\<close> whose two branches only print, so the
  attempt is recorded and nothing else depends on its outcome.
\<close>

definition send_confirmation_sms :: "sid \<Rightarrow> state \<Rightarrow> state \<times> (error + unit)" where
  "send_confirmation_sms call_sid s =
     (let data = map_of (call_data s) call_sid
      in case data_booking_info data of
           JObj kvs \<Rightarrow>
             (let customer_phone = get_or kvs ''phone'' (data_from data)
              in if truthy customer_phone \<and> customer_phone \<noteq> JStr ''Not provided''
                 then (s\<lparr>sms_outbox := sms_outbox s @
                          [\<lparr>to = customer_phone,
                            sms_appointment_time = get_or kvs ''appointment_time'' JNull,
                            sms_issue = get_or kvs ''issue'' JNull\<rparr>]\<rparr>, Inr ())
                 else (s, Inr ()))
         | _ \<Rightarrow> (s, Inl AttributeError))"

text \<open>
  \<open>save_to_dashboard\<close>: the two clock readings stand in for a missing \<open>started_at\<close> and
  \<open>ended_at\<close>; \<open>duration\<close> is the difference, its rendering as text is the printer's.
  \<open>format_dashboard\<close> is the dict built under "Format data for dashboard".
\<close>

definition format_dashboard ::
  "timestamp \<Rightarrow> timestamp \<Rightarrow> call_entry option \<Rightarrow> (string \<times> json) list \<Rightarrow> dashboard_data" where
  "format_dashboard now1 now2 data kvs =
     (let started = (case data of None \<Rightarrow> now1 | Some d \<Rightarrow> started_at d);
          ended = (case data of None \<Rightarrow> now2
                   | Some d \<Rightarrow> (case ended_at d of None \<Rightarrow> now2 | Some t \<Rightarrow> t))
      in \<lparr>clientName = get_or kvs ''name'' (JStr ''Unknown''),
          phone = get_or kvs ''phone''
            (case data of None \<Rightarrow> JStr ''Unknown'' | Some d \<Rightarrow> data_from data),
          issue = get_or kvs ''issue'' (JStr ''Not specified''),
          urgency =
            (if data_is_emergency data \<or> get_or kvs ''is_emergency'' JNull = JStr ''yes''
             then ''emergency'' else ''normal''),
          appointmentTime = get_or kvs ''appointment_time'' (JStr ''Not scheduled''),
          dash_status = (if data_is_emergency data then ''urgent'' else ''booked''),
          duration = ended - started,
          transcript = join_lines (data_conversation data)\<rparr>)"

definition save_to_dashboard ::
  "timestamp \<Rightarrow> timestamp \<Rightarrow> sid \<Rightarrow> state \<Rightarrow> state \<times> (error + unit)" where
  "save_to_dashboard now1 now2 call_sid s =
     (let data = map_of (call_data s) call_sid
      in case data_booking_info data of
           JObj kvs \<Rightarrow>
             (s\<lparr>dashboard := dashboard s @ [format_dashboard now1 now2 data kvs]\<rparr>, Inr ())
         | _ \<Rightarrow> (s, Inl AttributeError))"

text \<open>
  The wrap-up branch of \<open>/process_speech\<close>. Every store made before an exception stays in
  the dicts, so the state travels with the error.
\<close>

definition wrap_up :: "request_env \<Rightarrow> sid \<Rightarrow> call_entry \<Rightarrow> state \<Rightarrow> state \<times> (error + verb list)" where
  "wrap_up env call_sid d s =
     (let conversation_text = join_lines (conversation d)
      in case extract_booking_info (extract_oracle env) (json_loads env) conversation_text of
           Inl e \<Rightarrow> (s, Inl e)
         | Inr info \<Rightarrow>
             (let s1 = s\<lparr>call_data :=
                         AList.update call_sid (d\<lparr>booking_info := Some info\<rparr>) (call_data s)\<rparr>
              in case send_confirmation_sms call_sid s1 of
                   (s2, Inl e) \<Rightarrow> (s2, Inl e)
                 | (s2, Inr _) \<Rightarrow>
                     (case save_to_dashboard (now_started env) (now_ended env) call_sid s2 of
                        (s3, Inl e) \<Rightarrow> (s3, Inl e)
                      | (s3, Inr _) \<Rightarrow> (s3, Inr [Say closing, Hangup]))))"

text \<open>
  \<open>/process_speech\<close>. \<open>conversations[call_sid]\<close> and \<open>call_data[call_sid]\<close> raise
  \<open>KeyError\<close> on an unknown identifier; the length test reads the history after the
  assistant's turn has been appended.
\<close>

definition process_speech ::
  "request_env \<Rightarrow> sid \<Rightarrow> string \<Rightarrow> state \<Rightarrow> state \<times> (error + verb list)" where
  "process_speech env call_sid speech_result s =
     (case map_of (conversations s) call_sid of
        None \<Rightarrow> (s, Inl KeyError)
      | Some history \<Rightarrow>
          (let history1 = history @ [Message ''user'' speech_result];
               s1 = s\<lparr>conversations := AList.update call_sid history1 (conversations s)\<rparr>
           in case map_of (call_data s1) call_sid of
                None \<Rightarrow> (s1, Inl KeyError)
              | Some d \<Rightarrow>
                  (let d1 = d\<lparr>conversation := conversation d @ [''Customer: '' @ speech_result]\<rparr>;
                       d2 = (if detect_emergency speech_result
                             then d1\<lparr>is_emergency := Some True\<rparr> else d1);
                       s2 = s1\<lparr>call_data := AList.update call_sid d2 (call_data s1)\<rparr>
                   in case get_ai_response (chat_oracle env) history1 speech_result of
                        Raises \<Rightarrow> (s2, Inl OracleError)
                      | Returns ai_response \<Rightarrow>
                          (let history2 = history1 @ [Message ''assistant'' ai_response];
                               d3 = d2\<lparr>conversation := conversation d2 @ [''Bot: '' @ ai_response]\<rparr>;
                               s3 = s2\<lparr>conversations :=
                                          AList.update call_sid history2 (conversations s2),
                                        call_data := AList.update call_sid d3 (call_data s2)\<rparr>;
                               conversation_length = length history2
                           in if conversation_length \<ge> 6
                              then wrap_up env call_sid d3 s3
                              else (s3, Inr [Gather ai_response])))))"

text \<open>\<open>/call_status\<close>: an unknown identifier is skipped.\<close>

definition call_status :: "sid \<Rightarrow> string option \<Rightarrow> timestamp \<Rightarrow> state \<Rightarrow> state" where
  "call_status call_sid call_status_value now s =
     (case map_of (call_data s) call_sid of
        Some d \<Rightarrow> s\<lparr>call_data := AList.update call_sid
                       (d\<lparr>status := Some call_status_value, ended_at := Some now\<rparr>) (call_data s)\<rparr>
      | None \<Rightarrow> s)"

text \<open>\<open>/api/calls\<close>: one projection per entry of \<open>call_data\<close>, in the dict's order.\<close>

record call_view =
  view_id :: sid
  view_clientName :: json
  view_phone :: json
  view_issue :: json
  view_urgency :: string
  view_appointmentTime :: json
  view_status :: json
  view_timestamp :: timestamp
  view_transcript :: string

definition project_call :: "sid \<times> call_entry \<Rightarrow> error + call_view" where
  "project_call item =
     (let call_sid = fst item; data = Some (snd item)
      in case data_booking_info data of
           JObj kvs \<Rightarrow> Inr
             \<lparr>view_id = call_sid,
              view_clientName = get_or kvs ''name'' (JStr ''Unknown''),
              view_phone = get_or kvs ''phone'' (data_from data),
              view_issue = get_or kvs ''issue'' (JStr ''Not specified''),
              view_urgency = (if data_is_emergency data then ''emergency'' else ''normal''),
              view_appointmentTime = get_or kvs ''appointment_time'' (JStr ''Not scheduled''),
              view_status = (case status (snd item) of None \<Rightarrow> JStr ''in-progress''
                             | Some None \<Rightarrow> JNull | Some (Some t) \<Rightarrow> JStr t),
              view_timestamp = started_at (snd item),
              view_transcript = join_lines (conversation (snd item))\<rparr>
         | _ \<Rightarrow> Inl AttributeError)"

fun collect :: "('a \<Rightarrow> error + 'b) \<Rightarrow> 'a list \<Rightarrow> error + 'b list" where
  "collect f [] = Inr []"
| "collect f (x # xs) =
     (case f x of Inl e \<Rightarrow> Inl e
      | Inr y \<Rightarrow> (case collect f xs of Inl e \<Rightarrow> Inl e | Inr ys \<Rightarrow> Inr (y # ys)))"

definition get_calls :: "state \<Rightarrow> error + call_view list" where
  "get_calls s = collect project_call (call_data s)"

section \<open>Requests and runs\<close>

datatype event =
    Voice sid "string option" timestamp
  | ProcessSpeech request_env sid string
  | CallStatus sid "string option" timestamp
  | GetCalls
  | Health timestamp

datatype reply =
    Twiml "verb list"
  | StatusOk
  | Calls "call_view list"
  | Healthy timestamp

fun step :: "state \<Rightarrow> event \<Rightarrow> state \<times> (error + reply)" where
  "step s (Voice call_sid from_num now) =
     (case voice call_sid from_num now s of (s', r) \<Rightarrow> (s', Inr (Twiml r)))"
| "step s (ProcessSpeech env call_sid speech_result) =
     (case process_speech env call_sid speech_result s of
        (s', Inl e) \<Rightarrow> (s', Inl e)
      | (s', Inr r) \<Rightarrow> (s', Inr (Twiml r)))"
| "step s (CallStatus call_sid v now) = (call_status call_sid v now s, Inr StatusOk)"
| "step s GetCalls = (s, case get_calls s of Inl e \<Rightarrow> Inl e | Inr cs \<Rightarrow> Inr (Calls cs))"
| "step s (Health now) = (s, Inr (Healthy now))"

text \<open>A run of requests: a request that raised has answered with an error, the dicts stay.\<close>

fun run :: "state \<Rightarrow> event list \<Rightarrow> state" where
  "run s [] = s"
| "run s (e # es) = run (fst (step s e)) es"

text \<open>Reads of one session.\<close>

definition session_history :: "state \<Rightarrow> sid \<Rightarrow> message list option" where
  "session_history s call_sid = map_of (conversations s) call_sid"

definition session_data :: "state \<Rightarrow> sid \<Rightarrow> call_entry option" where
  "session_data s call_sid = map_of (call_data s) call_sid"

definition flagged :: "state \<Rightarrow> sid \<Rightarrow> bool" where
  "flagged s call_sid = data_is_emergency (session_data s call_sid)"

definition store_inv :: "state \<Rightarrow> bool" where
  "store_inv s \<longleftrightarrow> fst ` set (conversations s) = fst ` set (call_data s)"

section \<open>The stores of one exchange\<close>

text \<open>
  Names for the intermediate values of \<open>process_speech\<close>: the entry after the caller's line
  and the flag have been stored, the entry after the assistant's line as well, the two dicts
  after both, and the message list handed to the chat oracle.
\<close>

definition entry_heard :: "string \<Rightarrow> call_entry \<Rightarrow> call_entry" where
  "entry_heard speech_result d =
     (let d1 = d\<lparr>conversation := conversation d @ [''Customer: '' @ speech_result]\<rparr>
      in if detect_emergency speech_result then d1\<lparr>is_emergency := Some True\<rparr> else d1)"

definition entry_after :: "string \<Rightarrow> string \<Rightarrow> call_entry \<Rightarrow> call_entry" where
  "entry_after speech_result ai_response d =
     (let d2 = entry_heard speech_result d
      in d2\<lparr>conversation := conversation d2 @ [''Bot: '' @ ai_response]\<rparr>)"

definition state_after ::
  "sid \<Rightarrow> string \<Rightarrow> string \<Rightarrow> message list \<Rightarrow> call_entry \<Rightarrow> state \<Rightarrow> state" where
  "state_after call_sid speech_result ai_response history d s =
     s\<lparr>conversations := AList.update call_sid
          (history @ [Message ''user'' speech_result, Message ''assistant'' ai_response])
          (conversations s),
       call_data := AList.update call_sid (entry_after speech_result ai_response d) (call_data s)\<rparr>"

definition chat_request :: "message list \<Rightarrow> string \<Rightarrow> message list" where
  "chat_request history speech_result =
     Message ''system'' system_prompt
       # history @ [Message ''user'' speech_result, Message ''user'' speech_result]"

section \<open>A sample call\<close>

text \<open>
  The end-to-end scenario: call \<open>CA123\<close> from \<open>+441234567890\<close>, three utterances. The chat oracle
  answers with one fixed line. The extraction oracle answers with a well-formed record that
  names another phone number and says "no" to the emergency question; \<open>sample_loads\<close> is
  \<open>json.loads\<close> on that reply and on the text \<open>[]\<close>, and raises on every other text used
  below. In \<open>garbled_env\<close> the extraction oracle answers with prose.
\<close>

definition sample_sid :: sid where
  "sample_sid = Some ''CA123''"

definition sample_reply :: string where
  \<open>sample_reply = ''{"name": "Sam", "phone": "+447700900123", "address": "Not provided", ''
     @ ''"issue": "burst pipe", "appointment_time": "tomorrow at nine", "is_emergency": "no"}''\<close>

definition sample_record :: json where
  "sample_record = JObj
     [(''name'', JStr ''Sam''),
      (''phone'', JStr ''+447700900123''),
      (''address'', JStr ''Not provided''),
      (''issue'', JStr ''burst pipe''),
      (''appointment_time'', JStr ''tomorrow at nine''),
      (''is_emergency'', JStr ''no'')]"

definition sample_loads :: "string \<Rightarrow> json option" where
  "sample_loads text =
     (if text = sample_reply then Some sample_record
      else if text = ''[]'' then Some (JArr [])
      else None)"

definition sample_env :: request_env where
  "sample_env =
     \<lparr>chat_oracle = (\<lambda>messages. Returns ''Could I take your name and address, please?''),
      extract_oracle = (\<lambda>prompt. Returns sample_reply),
      json_loads = sample_loads,
      now_started = 0,
      now_ended = 0\<rparr>"

definition garbled_env :: request_env where
  "garbled_env = sample_env\<lparr>extract_oracle := (\<lambda>prompt. Returns ''Sorry, I cannot help with that.'')\<rparr>"

definition sample_call :: "request_env \<Rightarrow> event list" where
  "sample_call env =
     [Voice sample_sid (Some ''+441234567890'') 0,
      ProcessSpeech env sample_sid ''I have a burst pipe!'',
      ProcessSpeech env sample_sid ''My name is Sam'',
      ProcessSpeech env sample_sid ''Tomorrow at nine'']"

text \<open>The sample call after its second exchange.\<close>

definition two_exchanges :: state where
  "two_exchanges = run init_state (take 3 (sample_call sample_env))"

section \<open>Properties of the classifier\<close>




section \<open>Frame lemmas for the handlers\<close>

lemma keys_update_present:
  "k \<in> fst ` set al \<Longrightarrow> fst ` set (AList.update k v al) = fst ` set al"
  by (auto simp: AList.dom_update)

lemma map_of_present: "map_of al k = Some v \<Longrightarrow> k \<in> fst ` set al"
  by (metis domI dom_map_of_conv_image_fst)

lemma send_sms_shape:
  "\<exists>out r. send_confirmation_sms sid s = (s\<lparr>sms_outbox := out\<rparr>, r)"
proof (cases "data_booking_info (map_of (call_data s) sid)")
  case (JObj kvs)
  then show ?thesis
    by (cases "truthy (get_or kvs ''phone'' (data_from (map_of (call_data s) sid)))
                 \<and> get_or kvs ''phone'' (data_from (map_of (call_data s) sid)) \<noteq> JStr ''Not provided''")
       (auto simp: send_confirmation_sms_def Let_def intro: exI [of _ "sms_outbox s"])
qed (auto simp: send_confirmation_sms_def Let_def intro: exI [of _ "sms_outbox s"])

lemma save_shape:
  "\<exists>ds r. save_to_dashboard n1 n2 sid s = (s\<lparr>dashboard := ds\<rparr>, r)"
  by (cases "data_booking_info (map_of (call_data s) sid)")
     (auto simp: save_to_dashboard_def Let_def intro: exI [of _ "dashboard s"])

lemma wrap_up_shape:
  "\<exists>cd out ds r. wrap_up env sid d s = (s\<lparr>call_data := cd, sms_outbox := out, dashboard := ds\<rparr>, r)
     \<and> (cd = call_data s \<or> (\<exists>info. cd = AList.update sid (d\<lparr>booking_info := Some info\<rparr>) (call_data s)))"
proof (cases "extract_booking_info (extract_oracle env) (json_loads env) (join_lines (conversation d))")
  case (Inl e)
  then have "wrap_up env sid d s = (s\<lparr>call_data := call_data s, sms_outbox := sms_outbox s, dashboard := dashboard s\<rparr>, Inl e)"
    by (simp add: wrap_up_def)
  then show ?thesis by blast
next
  case (Inr info)
  define s1 where "s1 = s\<lparr>call_data := AList.update sid (d\<lparr>booking_info := Some info\<rparr>) (call_data s)\<rparr>"
  obtain out r1 where a: "send_confirmation_sms sid s1 = (s1\<lparr>sms_outbox := out\<rparr>, r1)"
    using send_sms_shape by blast
  define s2 where "s2 = s1\<lparr>sms_outbox := out\<rparr>"
  obtain ds r2 where b: "save_to_dashboard (now_started env) (now_ended env) sid s2 = (s2\<lparr>dashboard := ds\<rparr>, r2)"
    using save_shape by blast
  have s2': "s2 = s\<lparr>call_data := AList.update sid (d\<lparr>booking_info := Some info\<rparr>) (call_data s),
                    sms_outbox := out, dashboard := dashboard s\<rparr>"
    by (simp add: s2_def s1_def)
  have s3': "s2\<lparr>dashboard := ds\<rparr> = s\<lparr>call_data := AList.update sid (d\<lparr>booking_info := Some info\<rparr>) (call_data s),
                    sms_outbox := out, dashboard := ds\<rparr>"
    by (simp add: s2_def s1_def)
  have "\<exists>ds' r. wrap_up env sid d s = (s\<lparr>call_data := AList.update sid (d\<lparr>booking_info := Some info\<rparr>) (call_data s),
                    sms_outbox := out, dashboard := ds'\<rparr>, r)"
  proof (cases r1)
    case (Inl e)
    then have "wrap_up env sid d s = (s2, Inl e)"
      using Inr a by (simp add: wrap_up_def s1_def [symmetric] s2_def)
    then show ?thesis unfolding s2' by blast
  next
    case r1: (Inr u)
    show ?thesis
    proof (cases r2)
      case (Inl e)
      then have "wrap_up env sid d s = (s2\<lparr>dashboard := ds\<rparr>, Inl e)"
        using Inr a b r1 by (simp add: wrap_up_def s1_def [symmetric] s2_def [symmetric])
      then show ?thesis unfolding s3' by blast
    next
      case r2: (Inr u2)
      then have "wrap_up env sid d s = (s2\<lparr>dashboard := ds\<rparr>, Inr [Say closing, Hangup])"
        using Inr a b r1 by (simp add: wrap_up_def s1_def [symmetric] s2_def [symmetric])
      then show ?thesis unfolding s3' by blast
    qed
  qed
  then show ?thesis by blast
qed

lemma wrap_up_props:
  assumes "map_of (call_data s) sid = Some d"
  shows "conversations (fst (wrap_up env sid d s)) = conversations s"
    and "fst ` set (call_data (fst (wrap_up env sid d s))) = fst ` set (call_data s)"
    and "k \<noteq> sid \<Longrightarrow> map_of (call_data (fst (wrap_up env sid d s))) k = map_of (call_data s) k"
    and "\<exists>d'. map_of (call_data (fst (wrap_up env sid d s))) sid = Some d'
            \<and> is_emergency d' = is_emergency d"
proof -
  obtain cd out ds r where
    w: "wrap_up env sid d s = (s\<lparr>call_data := cd, sms_outbox := out, dashboard := ds\<rparr>, r)"
    and c: "cd = call_data s \<or> (\<exists>info. cd = AList.update sid (d\<lparr>booking_info := Some info\<rparr>) (call_data s))"
    using wrap_up_shape by blast
  have p: "sid \<in> fst ` set (call_data s)"
    using assms by (rule map_of_present)
  show "conversations (fst (wrap_up env sid d s)) = conversations s"
    by (simp add: w)
  show "fst ` set (call_data (fst (wrap_up env sid d s))) = fst ` set (call_data s)"
  proof -
    have "fst ` set cd = fst ` set (call_data s)"
      using c keys_update_present [OF p] by (elim disjE exE) simp_all
    then show ?thesis by (simp add: w)
  qed
  show "k \<noteq> sid \<Longrightarrow> map_of (call_data (fst (wrap_up env sid d s))) k = map_of (call_data s) k"
    using c by (auto simp: w update_conv')
  show "\<exists>d'. map_of (call_data (fst (wrap_up env sid d s))) sid = Some d'
            \<and> is_emergency d' = is_emergency d"
    using c assms by (auto simp: w update_conv')
qed

lemma process_speech_known:
  assumes h: "map_of (conversations s) sid = Some history"
    and d: "map_of (call_data s) sid = Some d"
    and c: "chat_oracle env (chat_request history sp) = Returns ai"
  shows "process_speech env sid sp s =
     (if 6 \<le> length history + 2
      then wrap_up env sid (entry_after sp ai d) (state_after sid sp ai history d s)
      else (state_after sid sp ai history d s, Inr [Gather ai]))"
  using h d c
  by (simp add: process_speech_def Let_def get_ai_response_def chat_request_def
        entry_after_def entry_heard_def state_after_def)

lemma entry_after_flag:
  "is_emergency d = Some True \<Longrightarrow> is_emergency (entry_after sp ai d) = Some True"
  by (simp add: entry_after_def entry_heard_def Let_def)

lemma entry_heard_flag:
  "is_emergency d = Some True \<Longrightarrow> is_emergency (entry_heard sp d) = Some True"
  by (simp add: entry_heard_def Let_def)

lemma state_after_props:
  assumes h: "map_of (conversations s) sid = Some history"
    and d: "map_of (call_data s) sid = Some d"
  shows "fst ` set (conversations (state_after sid sp ai history d s)) = fst ` set (conversations s)"
    and "fst ` set (call_data (state_after sid sp ai history d s)) = fst ` set (call_data s)"
    and "k \<noteq> sid \<Longrightarrow> map_of (conversations (state_after sid sp ai history d s)) k = map_of (conversations s) k"
    and "k \<noteq> sid \<Longrightarrow> map_of (call_data (state_after sid sp ai history d s)) k = map_of (call_data s) k"
    and "map_of (call_data (state_after sid sp ai history d s)) sid = Some (entry_after sp ai d)"
    and "map_of (conversations (state_after sid sp ai history d s)) sid
           = Some (history @ [Message ''user'' sp, Message ''assistant'' ai])"
    and "sms_outbox (state_after sid sp ai history d s) = sms_outbox s"
    and "dashboard (state_after sid sp ai history d s) = dashboard s"
  using keys_update_present [OF map_of_present [OF h]] keys_update_present [OF map_of_present [OF d]]
  by (simp_all add: state_after_def update_conv')

lemma process_speech_unknown:
  "map_of (conversations s) sid = None \<Longrightarrow> process_speech env sid sp s = (s, Inl KeyError)"
  by (simp add: process_speech_def)

lemma process_speech_no_data:
  "map_of (conversations s) sid = Some history \<Longrightarrow> map_of (call_data s) sid = None \<Longrightarrow>
   process_speech env sid sp s =
     (s\<lparr>conversations := AList.update sid (history @ [Message ''user'' sp]) (conversations s)\<rparr>,
      Inl KeyError)"
  by (simp add: process_speech_def Let_def)

lemma process_speech_raises:
  "map_of (conversations s) sid = Some history \<Longrightarrow> map_of (call_data s) sid = Some d \<Longrightarrow>
   chat_oracle env (chat_request history sp) = Raises \<Longrightarrow>
   process_speech env sid sp s =
     (s\<lparr>conversations := AList.update sid (history @ [Message ''user'' sp]) (conversations s),
        call_data := AList.update sid (entry_heard sp d) (call_data s)\<rparr>,
      Inl OracleError)"
  by (simp add: process_speech_def Let_def get_ai_response_def chat_request_def entry_heard_def)

lemma process_speech_props:
  "fst ` set (conversations (fst (process_speech env sid sp s))) = fst ` set (conversations s)"
  "fst ` set (call_data (fst (process_speech env sid sp s))) = fst ` set (call_data s)"
  "k \<noteq> sid \<Longrightarrow> map_of (conversations (fst (process_speech env sid sp s))) k = map_of (conversations s) k"
  "k \<noteq> sid \<Longrightarrow> map_of (call_data (fst (process_speech env sid sp s))) k = map_of (call_data s) k"
  "map_of (call_data s) sid = Some d0 \<Longrightarrow> is_emergency d0 = Some True \<Longrightarrow>
     \<exists>d'. map_of (call_data (fst (process_speech env sid sp s))) sid = Some d' \<and> is_emergency d' = Some True"
proof -
  let ?s' = "fst (process_speech env sid sp s)"
  have "fst ` set (conversations ?s') = fst ` set (conversations s)
     \<and> fst ` set (call_data ?s') = fst ` set (call_data s)
     \<and> (k \<noteq> sid \<longrightarrow> map_of (conversations ?s') k = map_of (conversations s) k)
     \<and> (k \<noteq> sid \<longrightarrow> map_of (call_data ?s') k = map_of (call_data s) k)
     \<and> (map_of (call_data s) sid = Some d0 \<longrightarrow> is_emergency d0 = Some True \<longrightarrow>
          (\<exists>d'. map_of (call_data ?s') sid = Some d' \<and> is_emergency d' = Some True))"
  proof (cases "map_of (conversations s) sid")
    case None
    then show ?thesis
      by (simp add: process_speech_unknown)
  next
    case h: (Some history)
    note kc = keys_update_present [OF map_of_present [OF h]]
    show ?thesis
    proof (cases "map_of (call_data s) sid")
      case None
      then show ?thesis
        using h kc by (simp add: process_speech_no_data update_conv')
    next
      case d: (Some d)
      note kd = keys_update_present [OF map_of_present [OF d]]
      show ?thesis
      proof (cases "chat_oracle env (chat_request history sp)")
        case Raises
        then show ?thesis
          using h d kc kd
          by (auto simp: process_speech_raises update_conv' entry_heard_flag)
      next
        case (Returns ai)
        note ps = process_speech_known [OF h d Returns]
        note sa = state_after_props [OF h d, where sp = sp and ai = ai]
        show ?thesis
        proof (cases "6 \<le> length history + 2")
          case False
          then show ?thesis
            using ps sa d by (auto simp: entry_after_flag)
        next
          case True
          note wp = wrap_up_props [OF sa(5), where env = env]
          from wp(4) obtain d' where
            d': "map_of (call_data (fst (wrap_up env sid (entry_after sp ai d)
                     (state_after sid sp ai history d s)))) sid = Some d'"
              "is_emergency d' = is_emergency (entry_after sp ai d)"
            by blast
          show ?thesis
            using True ps sa wp(1,2,3) d' d by (auto simp: entry_after_flag)
        qed
      qed
    qed
  qed
  then show
    "fst ` set (conversations ?s') = fst ` set (conversations s)"
    "fst ` set (call_data ?s') = fst ` set (call_data s)"
    "k \<noteq> sid \<Longrightarrow> map_of (conversations ?s') k = map_of (conversations s) k"
    "k \<noteq> sid \<Longrightarrow> map_of (call_data ?s') k = map_of (call_data s) k"
    "map_of (call_data s) sid = Some d0 \<Longrightarrow> is_emergency d0 = Some True \<Longrightarrow>
       \<exists>d'. map_of (call_data ?s') sid = Some d' \<and> is_emergency d' = Some True"
    by blast+
qed

section \<open>The wrap-up branch, case by case\<close>

lemma send_sms_dict:
  assumes "map_of (call_data s) sid = Some e" "booking_info e = Some (JObj kvs)"
  shows "send_confirmation_sms sid s =
     (let p = get_or kvs ''phone'' (data_from (Some e))
      in if truthy p \<and> p \<noteq> JStr ''Not provided''
         then (s\<lparr>sms_outbox := sms_outbox s @
                 [\<lparr>to = p, sms_appointment_time = get_or kvs ''appointment_time'' JNull,
                   sms_issue = get_or kvs ''issue'' JNull\<rparr>]\<rparr>, Inr ())
         else (s, Inr ()))"
  using assms by (simp add: send_confirmation_sms_def data_booking_info_def Let_def)

lemma send_sms_not_dict:
  assumes "map_of (call_data s) sid = Some e" "booking_info e = Some v" "\<forall>kvs. v \<noteq> JObj kvs"
  shows "send_confirmation_sms sid s = (s, Inl AttributeError)"
  using assms by (cases v) (simp_all add: send_confirmation_sms_def data_booking_info_def Let_def)

lemma save_dict:
  assumes "map_of (call_data s) sid = Some e" "booking_info e = Some (JObj kvs)"
  shows "save_to_dashboard n1 n2 sid s =
     (s\<lparr>dashboard := dashboard s @ [format_dashboard n1 n2 (Some e) kvs]\<rparr>, Inr ())"
  using assms by (simp add: save_to_dashboard_def data_booking_info_def Let_def)

lemma wrap_up_reply:
  "snd (wrap_up env sid d s) = Inr [Say closing, Hangup] \<or> (\<exists>e. snd (wrap_up env sid d s) = Inl e)"
  by (auto simp: wrap_up_def Let_def split: sum.splits prod.splits)


lemma wrap_up_dict:
  assumes x: "extract_booking_info (extract_oracle env) (json_loads env) (join_lines (conversation d))
                = Inr (JObj kvs)"
  shows "wrap_up env sid d s =
     (s\<lparr>call_data := AList.update sid (d\<lparr>booking_info := Some (JObj kvs)\<rparr>) (call_data s),
        sms_outbox := sms_outbox s @
          (let p = get_or kvs ''phone'' (data_from (Some d))
           in if truthy p \<and> p \<noteq> JStr ''Not provided''
              then [\<lparr>to = p, sms_appointment_time = get_or kvs ''appointment_time'' JNull,
                     sms_issue = get_or kvs ''issue'' JNull\<rparr>]
              else []),
        dashboard := dashboard s @
          [format_dashboard (now_started env) (now_ended env)
             (Some (d\<lparr>booking_info := Some (JObj kvs)\<rparr>)) kvs]\<rparr>,
      Inr [Say closing, Hangup])"
proof -
  define e where "e = d\<lparr>booking_info := Some (JObj kvs)\<rparr>"
  define s1 where "s1 = s\<lparr>call_data := AList.update sid e (call_data s)\<rparr>"
  have m: "map_of (call_data s1) sid = Some e"
    by (simp add: s1_def update_conv')
  have b: "booking_info e = Some (JObj kvs)"
    by (simp add: e_def)
  have f: "data_from (Some e) = data_from (Some d)"
    by (simp add: e_def data_from_def)
  note snd1 = send_sms_dict [OF m b]
  show ?thesis
  proof (cases "truthy (get_or kvs ''phone'' (data_from (Some d)))
                  \<and> get_or kvs ''phone'' (data_from (Some d)) \<noteq> JStr ''Not provided''")
    case True
    define s2 where "s2 = s1\<lparr>sms_outbox := sms_outbox s1 @
                 [\<lparr>to = get_or kvs ''phone'' (data_from (Some d)),
                   sms_appointment_time = get_or kvs ''appointment_time'' JNull,
                   sms_issue = get_or kvs ''issue'' JNull\<rparr>]\<rparr>"
    have a: "send_confirmation_sms sid s1 = (s2, Inr ())"
      using snd1 True by (simp add: f s2_def Let_def)
    have m2: "map_of (call_data s2) sid = Some e"
      using m by (simp add: s2_def)
    have c: "save_to_dashboard (now_started env) (now_ended env) sid s2 =
       (s2\<lparr>dashboard := dashboard s2 @ [format_dashboard (now_started env) (now_ended env) (Some e) kvs]\<rparr>, Inr ())"
      by (rule save_dict [OF m2 b])
    have "wrap_up env sid d s =
       (s2\<lparr>dashboard := dashboard s2 @ [format_dashboard (now_started env) (now_ended env) (Some e) kvs]\<rparr>,
        Inr [Say closing, Hangup])"
      using x a c by (simp add: wrap_up_def e_def [symmetric] s1_def [symmetric])
    then show ?thesis
      using True by (simp add: s2_def s1_def e_def Let_def)
  next
    case False
    have a: "send_confirmation_sms sid s1 = (s1, Inr ())"
      using snd1 False by (simp add: f Let_def)
    have c: "save_to_dashboard (now_started env) (now_ended env) sid s1 =
       (s1\<lparr>dashboard := dashboard s1 @ [format_dashboard (now_started env) (now_ended env) (Some e) kvs]\<rparr>, Inr ())"
      by (rule save_dict [OF m b])
    have "wrap_up env sid d s =
       (s1\<lparr>dashboard := dashboard s1 @ [format_dashboard (now_started env) (now_ended env) (Some e) kvs]\<rparr>,
        Inr [Say closing, Hangup])"
      using x a c by (simp add: wrap_up_def e_def [symmetric] s1_def [symmetric])
    then show ?thesis
      using False by (simp add: s1_def e_def Let_def)
  qed
qed

lemma wrap_up_success_dict:
  assumes "snd (wrap_up env sid d s) = Inr r"
  shows "\<exists>kvs. extract_booking_info (extract_oracle env) (json_loads env) (join_lines (conversation d))
                = Inr (JObj kvs)"
proof (cases "extract_booking_info (extract_oracle env) (json_loads env) (join_lines (conversation d))")
  case (Inl e)
  then show ?thesis using assms by (simp add: wrap_up_def)
next
  case (Inr v)
  define s1 where "s1 = s\<lparr>call_data := AList.update sid (d\<lparr>booking_info := Some v\<rparr>) (call_data s)\<rparr>"
  have m: "map_of (call_data s1) sid = Some (d\<lparr>booking_info := Some v\<rparr>)"
    by (simp add: s1_def update_conv')
  show ?thesis
  proof (cases "\<exists>kvs. v = JObj kvs")
    case True
    then show ?thesis using Inr by blast
  next
    case False
    then have "send_confirmation_sms sid s1 = (s1, Inl AttributeError)"
      using send_sms_not_dict [OF m, of v] by simp
    then have "snd (wrap_up env sid d s) = Inl AttributeError"
      using Inr by (simp add: wrap_up_def s1_def [symmetric])
    then show ?thesis using assms by simp
  qed
qed

section \<open>Call start, status updates and runs\<close>

lemma voice_present:
  "call_sid \<in> fst ` set (conversations s) \<Longrightarrow> voice call_sid f t s = (s, [Gather greeting, Say no_input])"
  by (simp add: voice_def)

lemma voice_absent:
  "call_sid \<notin> fst ` set (conversations s) \<Longrightarrow> voice call_sid f t s =
     (s\<lparr>conversations := AList.update call_sid [] (conversations s),
        call_data := AList.update call_sid
          \<lparr>from_number = f, started_at = t, conversation = [],
           is_emergency = None, booking_info = None, status = None, ended_at = None\<rparr>
          (call_data s)\<rparr>, [Gather greeting, Say no_input])"
  by (simp add: voice_def)


lemma voice_other:
  "k \<noteq> call_sid \<Longrightarrow> map_of (conversations (fst (voice call_sid f t s))) k = map_of (conversations s) k"
  "k \<noteq> call_sid \<Longrightarrow> map_of (call_data (fst (voice call_sid f t s))) k = map_of (call_data s) k"
  by (cases "call_sid \<in> fst ` set (conversations s)";
      simp add: voice_present voice_absent update_conv')+

lemma voice_keys:
  "fst ` set (conversations (fst (voice call_sid f t s))) = insert call_sid (fst ` set (conversations s))"
  "call_sid \<notin> fst ` set (conversations s) \<Longrightarrow>
     fst ` set (call_data (fst (voice call_sid f t s))) = insert call_sid (fst ` set (call_data s))"
  "call_sid \<in> fst ` set (conversations s) \<Longrightarrow>
     fst ` set (call_data (fst (voice call_sid f t s))) = fst ` set (call_data s)"
  by (cases "call_sid \<in> fst ` set (conversations s)";
      auto simp: voice_present voice_absent dom_update)+

lemma call_status_other:
  "k \<noteq> call_sid \<Longrightarrow> map_of (call_data (call_status call_sid v t s)) k = map_of (call_data s) k"
  "conversations (call_status call_sid v t s) = conversations s"
  by (simp_all add: call_status_def update_conv' split: option.splits)

lemma call_status_keys:
  "fst ` set (call_data (call_status call_sid v t s)) = fst ` set (call_data s)"
  by (auto simp: call_status_def keys_update_present map_of_present split: option.splits)

lemma call_status_flag:
  "map_of (call_data s) sid = Some d \<Longrightarrow>
   \<exists>d'. map_of (call_data (call_status k v t s)) sid = Some d' \<and> is_emergency d' = is_emergency d"
  by (cases "k = sid") (auto simp: call_status_def update_conv' split: option.splits)

lemma step_process_fst:
  "fst (step s (ProcessSpeech env k sp)) = fst (process_speech env k sp s)"
  by (simp split: prod.splits sum.splits)

lemma step_voice_fst:
  "fst (step s (Voice k f t)) = fst (voice k f t s)"
  by (simp split: prod.splits)

lemma step_inv: "store_inv s \<Longrightarrow> store_inv (fst (step s e))"
proof (cases e)
  case (Voice k f t)
  assume "store_inv s"
  then show ?thesis
    unfolding Voice step_voice_fst store_inv_def
    by (cases "k \<in> fst ` set (conversations s)") (auto simp: voice_keys)
next
  case (ProcessSpeech env k sp)
  assume "store_inv s"
  then show ?thesis
    unfolding ProcessSpeech step_process_fst store_inv_def
    by (simp add: process_speech_props)
next
  case (CallStatus k v t)
  assume "store_inv s"
  then show ?thesis
    using CallStatus by (simp add: store_inv_def call_status_keys call_status_other)
qed (simp_all)

lemma step_keys:
  "fst ` set (conversations s) \<subseteq> fst ` set (conversations (fst (step s e)))
   \<and> fst ` set (call_data s) \<subseteq> fst ` set (call_data (fst (step s e)))"
proof (cases e)
  case (Voice k f t)
  show ?thesis
    unfolding Voice step_voice_fst
    by (cases "k \<in> fst ` set (conversations s)") (auto simp: voice_keys)
next
  case (ProcessSpeech env k sp)
  show ?thesis
    unfolding ProcessSpeech step_process_fst
    by (simp add: process_speech_props)
next
  case (CallStatus k v t)
  then show ?thesis
    by (simp add: call_status_keys call_status_other)
qed (simp_all)

lemma step_flag:
  assumes inv: "store_inv s" and d: "map_of (call_data s) sid = Some d"
    and f: "is_emergency d = Some True"
  shows "\<exists>d'. map_of (call_data (fst (step s e))) sid = Some d' \<and> is_emergency d' = Some True"
proof (cases e)
  case (Voice k f' t)
  show ?thesis
  proof (cases "k \<in> fst ` set (conversations s)")
    case True
    then show ?thesis
      unfolding Voice step_voice_fst using d f by (simp add: voice_present)
  next
    case False
    have "sid \<in> fst ` set (conversations s)"
      using inv map_of_present [OF d] by (simp add: store_inv_def)
    then have "sid \<noteq> k" using False by blast
    then have "map_of (call_data (fst (voice k f' t s))) sid = map_of (call_data s) sid"
      by (simp add: voice_other(2))
    then show ?thesis
      unfolding Voice step_voice_fst using d f by simp
  qed
next
  case (ProcessSpeech env k sp)
  show ?thesis
  proof (cases "k = sid")
    case True
    then show ?thesis
      unfolding ProcessSpeech step_process_fst
      using process_speech_props(5) [OF d f] by simp
  next
    case False
    then have "map_of (call_data (fst (process_speech env k sp s))) sid = map_of (call_data s) sid"
      by (simp add: process_speech_props(4))
    then show ?thesis
      unfolding ProcessSpeech step_process_fst using d f by simp
  qed
next
  case (CallStatus k v t)
  then show ?thesis
    using call_status_flag [OF d, of k v t] f by auto
qed (use d f in simp_all)

lemma flagged_iff:
  "flagged s sid \<longleftrightarrow> (\<exists>d. map_of (call_data s) sid = Some d \<and> is_emergency d = Some True)"
  by (auto simp: flagged_def session_data_def data_is_emergency_def split: option.splits)

lemma run_inv: "store_inv s \<Longrightarrow> store_inv (run s es)"
  by (induction es arbitrary: s) (simp_all add: step_inv)

lemma run_flag: "store_inv s \<Longrightarrow> flagged s sid \<Longrightarrow> flagged (run s es) sid"
proof (induction es arbitrary: s)
  case Nil
  then show ?case by simp
next
  case (Cons e es)
  have "flagged (fst (step s e)) sid"
    using Cons.prems step_flag [of s sid _ e] unfolding flagged_iff by blast
  then show ?case
    using Cons.IH [OF step_inv [OF Cons.prems(1)]] by simp
qed

lemma run_append: "run s (es @ es') = run (run s es) es'"
  by (induction es arbitrary: s) simp_all

lemma init_inv: "store_inv init_state"
  by (simp add: store_inv_def init_state_def)

section \<open>Requests that return\<close>

lemma process_speech_returned:
  assumes r: "snd (process_speech env sid sp s) = Inr r"
  shows "\<exists>history d ai. map_of (conversations s) sid = Some history
           \<and> map_of (call_data s) sid = Some d
           \<and> chat_oracle env (chat_request history sp) = Returns ai"
proof (cases "map_of (conversations s) sid")
  case None
  then show ?thesis using r by (simp add: process_speech_unknown)
next
  case h: (Some history)
  show ?thesis
  proof (cases "map_of (call_data s) sid")
    case None
    then show ?thesis using r h by (simp add: process_speech_no_data)
  next
    case d: (Some d)
    show ?thesis
    proof (cases "chat_oracle env (chat_request history sp)")
      case Raises
      then show ?thesis using r h d by (simp add: process_speech_raises)
    next
      case (Returns ai)
      then show ?thesis using h d by blast
    qed
  qed
qed

lemma entry_after_fields:
  "conversation (entry_after sp ai d) = conversation d @ [''Customer: '' @ sp, ''Bot: '' @ ai]"
  "is_emergency (entry_after sp ai d) = (if detect_emergency sp then Some True else is_emergency d)"
  "booking_info (entry_after sp ai d) = booking_info d"
  "from_number (entry_after sp ai d) = from_number d"
  by (simp_all add: entry_after_def entry_heard_def Let_def)

lemma process_speech_wraps_up:
  assumes h: "map_of (conversations s) sid = Some history"
    and n: "4 \<le> length history"
    and r: "snd (process_speech env sid sp s) = Inr r"
  shows "\<exists>d ai kvs. map_of (call_data s) sid = Some d
     \<and> chat_oracle env (chat_request history sp) = Returns ai
     \<and> extract_booking_info (extract_oracle env) (json_loads env)
          (join_lines (conversation (entry_after sp ai d))) = Inr (JObj kvs)
     \<and> process_speech env sid sp s =
         ((state_after sid sp ai history d s)
            \<lparr>call_data := AList.update sid ((entry_after sp ai d)\<lparr>booking_info := Some (JObj kvs)\<rparr>)
                 (call_data (state_after sid sp ai history d s)),
             sms_outbox := sms_outbox s @
               (let p = get_or kvs ''phone'' (data_from (Some d))
                in if truthy p \<and> p \<noteq> JStr ''Not provided''
                   then [\<lparr>to = p, sms_appointment_time = get_or kvs ''appointment_time'' JNull,
                          sms_issue = get_or kvs ''issue'' JNull\<rparr>]
                   else []),
             dashboard := dashboard s @
               [format_dashboard (now_started env) (now_ended env)
                  (Some ((entry_after sp ai d)\<lparr>booking_info := Some (JObj kvs)\<rparr>)) kvs]\<rparr>,
          Inr [Say closing, Hangup])"
proof -
  obtain history' d ai where
    h': "map_of (conversations s) sid = Some history'"
    and d: "map_of (call_data s) sid = Some d"
    and c': "chat_oracle env (chat_request history' sp) = Returns ai"
    using process_speech_returned [OF r] by blast
  have c: "chat_oracle env (chat_request history sp) = Returns ai"
    using h h' c' by simp
  have ps: "process_speech env sid sp s =
      wrap_up env sid (entry_after sp ai d) (state_after sid sp ai history d s)"
    using process_speech_known [OF h d c] n by simp
  then obtain kvs where
    x: "extract_booking_info (extract_oracle env) (json_loads env)
          (join_lines (conversation (entry_after sp ai d))) = Inr (JObj kvs)"
    using wrap_up_success_dict [of env sid "entry_after sp ai d" "state_after sid sp ai history d s" r] r
    by auto
  have f: "data_from (Some (entry_after sp ai d)) = data_from (Some d)"
    by (simp add: data_from_def entry_after_fields)
  have "process_speech env sid sp s =
         ((state_after sid sp ai history d s)
            \<lparr>call_data := AList.update sid ((entry_after sp ai d)\<lparr>booking_info := Some (JObj kvs)\<rparr>)
                 (call_data (state_after sid sp ai history d s)),
             sms_outbox := sms_outbox s @
               (let p = get_or kvs ''phone'' (data_from (Some d))
                in if truthy p \<and> p \<noteq> JStr ''Not provided''
                   then [\<lparr>to = p, sms_appointment_time = get_or kvs ''appointment_time'' JNull,
                          sms_issue = get_or kvs ''issue'' JNull\<rparr>]
                   else []),
             dashboard := dashboard s @
               [format_dashboard (now_started env) (now_ended env)
                  (Some ((entry_after sp ai d)\<lparr>booking_info := Some (JObj kvs)\<rparr>)) kvs]\<rparr>,
          Inr [Say closing, Hangup])"
    unfolding ps wrap_up_dict [OF x] f
    by (simp add: state_after_props(7,8) [OF h d])
  then show ?thesis using d c x by blast
qed

lemma process_speech_closing:
  assumes "snd (process_speech env sid sp s) = Inr [Say closing, Hangup]"
  shows "\<exists>history. map_of (conversations s) sid = Some history \<and> 4 \<le> length history"
proof -
  obtain history d ai where
    h: "map_of (conversations s) sid = Some history"
    and d: "map_of (call_data s) sid = Some d"
    and c: "chat_oracle env (chat_request history sp) = Returns ai"
    using process_speech_returned [OF assms] by blast
  have "4 \<le> length history"
  proof (rule ccontr)
    assume "\<not> 4 \<le> length history"
    then have "process_speech env sid sp s = (state_after sid sp ai history d s, Inr [Gather ai])"
      using process_speech_known [OF h d c] by simp
    then show False using assms by simp
  qed
  then show ?thesis using h by blast
qed

section \<open>The turn threshold\<close>

text \<open>
  C1. For a known session whose chat oracle call returns, the history is measured after
  the assistant's turn has been appended. When it then holds six turns or more, the request
  is the wrap-up branch (and answers with the closing line and a hang-up, or with an error,
  never with a gather); when it holds fewer, the request answers with a gather of the
  assistant's line, sends no message, publishes no record and leaves the booking record of
  the session as it was.
\<close>

theorem wrap_up_threshold:
  assumes h: "session_history s call_sid = Some history"
    and d: "session_data s call_sid = Some d"
    and c: "chat_oracle env (chat_request history speech_result) = Returns ai_response"
  shows "session_history (state_after call_sid speech_result ai_response history d s) call_sid
           = Some (history @ [Message ''user'' speech_result, Message ''assistant'' ai_response])
     \<and> (if 6 \<le> length (history @ [Message ''user'' speech_result, Message ''assistant'' ai_response])
        then process_speech env call_sid speech_result s
               = wrap_up env call_sid (entry_after speech_result ai_response d)
                   (state_after call_sid speech_result ai_response history d s)
             \<and> (snd (process_speech env call_sid speech_result s) = Inr [Say closing, Hangup]
                \<or> (\<exists>e. snd (process_speech env call_sid speech_result s) = Inl e))
        else process_speech env call_sid speech_result s
               = (state_after call_sid speech_result ai_response history d s, Inr [Gather ai_response])
             \<and> sms_outbox (state_after call_sid speech_result ai_response history d s) = sms_outbox s
             \<and> dashboard (state_after call_sid speech_result ai_response history d s) = dashboard s
             \<and> booking_info (entry_after speech_result ai_response d) = booking_info d)"
proof -
  have h': "map_of (conversations s) call_sid = Some history"
    using h by (simp add: session_history_def)
  have d': "map_of (call_data s) call_sid = Some d"
    using d by (simp add: session_data_def)
  note ps = process_speech_known [OF h' d' c]
  note sa = state_after_props [OF h' d', where sp = speech_result and ai = ai_response]
  show ?thesis
  proof (cases "6 \<le> length history + 2")
    case True
    then show ?thesis
      using ps sa(6)
        wrap_up_reply [of env call_sid "entry_after speech_result ai_response d"
          "state_after call_sid speech_result ai_response history d s"]
      by (simp add: session_history_def)
  next
    case False
    then show ?thesis
      using ps sa(6,7,8) by (simp add: session_history_def entry_after_fields)
  qed
qed

theorem wrap_up_threshold_witness:
  "process_speech sample_env sample_sid ''Tomorrow at nine'' two_exchanges
     = wrap_up sample_env sample_sid
         (entry_after ''Tomorrow at nine'' ''Could I take your name and address, please?''
            \<lparr>from_number = Some ''+441234567890'', started_at = 0,
             conversation =
               [''Customer: I have a burst pipe!'',
                ''Bot: Could I take your name and address, please?'',
                ''Customer: My name is Sam'',
                ''Bot: Could I take your name and address, please?''],
             is_emergency = Some True, booking_info = None, status = None, ended_at = None\<rparr>)
         (state_after sample_sid ''Tomorrow at nine'' ''Could I take your name and address, please?''
            [Message ''user'' ''I have a burst pipe!'',
             Message ''assistant'' ''Could I take your name and address, please?'',
             Message ''user'' ''My name is Sam'',
             Message ''assistant'' ''Could I take your name and address, please?'']
            \<lparr>from_number = Some ''+441234567890'', started_at = 0,
             conversation =
               [''Customer: I have a burst pipe!'',
                ''Bot: Could I take your name and address, please?'',
                ''Customer: My name is Sam'',
                ''Bot: Could I take your name and address, please?''],
             is_emergency = Some True, booking_info = None, status = None, ended_at = None\<rparr>
            two_exchanges)"
proof -
  have h: "session_history two_exchanges sample_sid =
     Some [Message ''user'' ''I have a burst pipe!'',
           Message ''assistant'' ''Could I take your name and address, please?'',
           Message ''user'' ''My name is Sam'',
           Message ''assistant'' ''Could I take your name and address, please?'']"
    by code_simp
  have d: "session_data two_exchanges sample_sid =
     Some \<lparr>from_number = Some ''+441234567890'', started_at = 0,
             conversation =
               [''Customer: I have a burst pipe!'',
                ''Bot: Could I take your name and address, please?'',
                ''Customer: My name is Sam'',
                ''Bot: Could I take your name and address, please?''],
             is_emergency = Some True, booking_info = None, status = None, ended_at = None\<rparr>"
    by code_simp
  have c: "chat_oracle sample_env (chat_request
       [Message ''user'' ''I have a burst pipe!'',
           Message ''assistant'' ''Could I take your name and address, please?'',
           Message ''user'' ''My name is Sam'',
           Message ''assistant'' ''Could I take your name and address, please?''] ''Tomorrow at nine'')
       = Returns ''Could I take your name and address, please?''"
    by (simp add: sample_env_def)
  show ?thesis
    using wrap_up_threshold [OF h d c] by simp
qed

section \<open>Repeated wrap-up\<close>

text \<open>
  The sample call wraps up on its third utterance: one message, one dashboard record. The
  same utterance delivered once more wraps up again: two messages, two dashboard records.
\<close>

theorem duplicate_wrap_up_counterexample:
  "length (sms_outbox (run init_state (sample_call sample_env))) = 1
   \<and> length (dashboard (run init_state (sample_call sample_env))) = 1
   \<and> length (sms_outbox (run init_state
        (sample_call sample_env @ [ProcessSpeech sample_env sample_sid ''Tomorrow at nine'']))) = 2
   \<and> length (dashboard (run init_state
        (sample_call sample_env @ [ProcessSpeech sample_env sample_sid ''Tomorrow at nine'']))) = 2"
  by code_simp

text \<open>
  C2, as the code has it. There is no once-only guard: every request for a session whose
  history already holds six turns, if it returns at all, returns the closing line with a
  hang-up, publishes exactly one more dashboard record, and sends one more message when the
  destination is truthy and not "Not provided" (none otherwise). The history only grows, so
  the next request for the session is in the same position.
\<close>

theorem wrap_up_repeats:
  assumes h: "session_history s call_sid = Some history"
    and n: "6 \<le> length history"
    and r: "snd (process_speech env call_sid speech_result s) = Inr r"
  shows "r = [Say closing, Hangup]
     \<and> length (dashboard (fst (process_speech env call_sid speech_result s))) = Suc (length (dashboard s))
     \<and> (\<exists>d kvs. session_data (fst (process_speech env call_sid speech_result s)) call_sid = Some d
            \<and> booking_info d = Some (JObj kvs)
            \<and> length (sms_outbox (fst (process_speech env call_sid speech_result s)))
                = length (sms_outbox s)
                  + (if truthy (get_or kvs ''phone'' (data_from (Some d)))
                        \<and> get_or kvs ''phone'' (data_from (Some d)) \<noteq> JStr ''Not provided''
                     then 1 else 0))
     \<and> (\<exists>history'. session_history (fst (process_speech env call_sid speech_result s)) call_sid
                       = Some history' \<and> 6 \<le> length history')"
proof -
  have h': "map_of (conversations s) call_sid = Some history"
    using h by (simp add: session_history_def)
  have n': "4 \<le> length history" using n by simp
  obtain d ai kvs where
    d: "map_of (call_data s) call_sid = Some d"
    and ps: "process_speech env call_sid speech_result s =
         ((state_after call_sid speech_result ai history d s)
            \<lparr>call_data := AList.update call_sid
                 ((entry_after speech_result ai d)\<lparr>booking_info := Some (JObj kvs)\<rparr>)
                 (call_data (state_after call_sid speech_result ai history d s)),
             sms_outbox := sms_outbox s @
               (let p = get_or kvs ''phone'' (data_from (Some d))
                in if truthy p \<and> p \<noteq> JStr ''Not provided''
                   then [\<lparr>to = p, sms_appointment_time = get_or kvs ''appointment_time'' JNull,
                          sms_issue = get_or kvs ''issue'' JNull\<rparr>]
                   else []),
             dashboard := dashboard s @
               [format_dashboard (now_started env) (now_ended env)
                  (Some ((entry_after speech_result ai d)\<lparr>booking_info := Some (JObj kvs)\<rparr>)) kvs]\<rparr>,
          Inr [Say closing, Hangup])"
    using process_speech_wraps_up [OF h' n' r] by blast
  let ?e = "(entry_after speech_result ai d)\<lparr>booking_info := Some (JObj kvs)\<rparr>"
  have f: "data_from (Some ?e) = data_from (Some d)"
    by (simp add: data_from_def entry_after_fields)
  have r': "r = [Say closing, Hangup]"
    using r ps by simp
  have dl: "length (dashboard (fst (process_speech env call_sid speech_result s))) = Suc (length (dashboard s))"
    by (simp add: ps)
  have sd: "session_data (fst (process_speech env call_sid speech_result s)) call_sid = Some ?e"
    by (simp add: ps session_data_def update_conv')
  have sl: "length (sms_outbox (fst (process_speech env call_sid speech_result s)))
                = length (sms_outbox s)
                  + (if truthy (get_or kvs ''phone'' (data_from (Some ?e)))
                        \<and> get_or kvs ''phone'' (data_from (Some ?e)) \<noteq> JStr ''Not provided''
                     then 1 else 0)"
    unfolding f by (simp add: ps Let_def)
  have hl: "session_history (fst (process_speech env call_sid speech_result s)) call_sid
              = Some (history @ [Message ''user'' speech_result, Message ''assistant'' ai])"
    using state_after_props(6) [OF h' d, where sp = speech_result and ai = ai]
    by (simp add: ps session_history_def)
  have b: "booking_info ?e = Some (JObj kvs)" by simp
  show ?thesis
    using r' dl sd sl hl n b by (intro conjI exI [of _ ?e] exI [of _ kvs]) auto
qed

theorem wrap_up_repeats_witness:
  "length (dashboard (fst (process_speech sample_env sample_sid ''Tomorrow at nine''
        (run init_state (sample_call sample_env)))))
     = Suc (length (dashboard (run init_state (sample_call sample_env))))"
proof -
  have h: "session_history (run init_state (sample_call sample_env)) sample_sid =
     Some [Message ''user'' ''I have a burst pipe!'',
           Message ''assistant'' ''Could I take your name and address, please?'',
           Message ''user'' ''My name is Sam'',
           Message ''assistant'' ''Could I take your name and address, please?'',
           Message ''user'' ''Tomorrow at nine'',
           Message ''assistant'' ''Could I take your name and address, please?'']"
    by code_simp
  have n: "6 \<le> length [Message ''user'' ''I have a burst pipe!'',
           Message ''assistant'' ''Could I take your name and address, please?'',
           Message ''user'' ''My name is Sam'',
           Message ''assistant'' ''Could I take your name and address, please?'',
           Message ''user'' ''Tomorrow at nine'',
           Message ''assistant'' ''Could I take your name and address, please?'']"
    by simp
  have r: "snd (process_speech sample_env sample_sid ''Tomorrow at nine''
        (run init_state (sample_call sample_env))) = Inr [Say closing, Hangup]"
    by code_simp
  show ?thesis
    using wrap_up_repeats [OF h n r] by blast
qed

section \<open>The booking record and the emergency flag\<close>

text \<open>
  After the sample call the session's flag is set (the first utterance says "burst"), and the
  booking record stored with the session still carries the extraction oracle's "no".
\<close>

theorem booking_record_disagrees_counterexample:
  "map_option is_emergency (session_data (run init_state (sample_call sample_env)) sample_sid)
     = Some (Some True)
   \<and> map_option booking_info (session_data (run init_state (sample_call sample_env)) sample_sid)
     = Some (Some (JObj
         [(''name'', JStr ''Sam''),
          (''phone'', JStr ''+447700900123''),
          (''address'', JStr ''Not provided''),
          (''issue'', JStr ''burst pipe''),
          (''appointment_time'', JStr ''tomorrow at nine''),
          (''is_emergency'', JStr ''no'')]))"
  by code_simp

lemma format_dashboard_flag:
  "data_is_emergency data \<Longrightarrow>
     urgency (format_dashboard n1 n2 data kvs) = ''emergency''
     \<and> dash_status (format_dashboard n1 n2 data kvs) = ''urgent''"
  by (simp add: format_dashboard_def Let_def)

text \<open>
  C6, as the code has it. When a request answers with the closing line, the booking record
  stored with the session is the value the extractor returned on the session's transcript,
  its \<open>is_emergency\<close> entry included. The classifier's finding lives in the session's own
  flag, which is set exactly when it was set before or this utterance is an emergency, and
  the dashboard record published by the request reads "emergency" and "urgent" whenever
  that flag is set.
\<close>

theorem booking_record_is_extractor_output:
  assumes r: "snd (process_speech env call_sid speech_result s) = Inr [Say closing, Hangup]"
  shows "\<exists>d kvs rec.
       session_data (fst (process_speech env call_sid speech_result s)) call_sid = Some d
     \<and> booking_info d = Some (JObj kvs)
     \<and> extract_booking_info (extract_oracle env) (json_loads env) (join_lines (conversation d))
         = Inr (JObj kvs)
     \<and> (flagged (fst (process_speech env call_sid speech_result s)) call_sid
          \<longleftrightarrow> detect_emergency speech_result \<or> flagged s call_sid)
     \<and> dashboard (fst (process_speech env call_sid speech_result s)) = dashboard s @ [rec]
     \<and> (flagged (fst (process_speech env call_sid speech_result s)) call_sid
          \<longrightarrow> urgency rec = ''emergency'' \<and> dash_status rec = ''urgent'')"
proof -
  obtain history where
    h: "map_of (conversations s) call_sid = Some history" and n: "4 \<le> length history"
    using process_speech_closing [OF r] by blast
  obtain d ai kvs where
    d: "map_of (call_data s) call_sid = Some d"
    and x: "extract_booking_info (extract_oracle env) (json_loads env)
          (join_lines (conversation (entry_after speech_result ai d))) = Inr (JObj kvs)"
    and ps: "process_speech env call_sid speech_result s =
         ((state_after call_sid speech_result ai history d s)
            \<lparr>call_data := AList.update call_sid
                 ((entry_after speech_result ai d)\<lparr>booking_info := Some (JObj kvs)\<rparr>)
                 (call_data (state_after call_sid speech_result ai history d s)),
             sms_outbox := sms_outbox s @
               (let p = get_or kvs ''phone'' (data_from (Some d))
                in if truthy p \<and> p \<noteq> JStr ''Not provided''
                   then [\<lparr>to = p, sms_appointment_time = get_or kvs ''appointment_time'' JNull,
                          sms_issue = get_or kvs ''issue'' JNull\<rparr>]
                   else []),
             dashboard := dashboard s @
               [format_dashboard (now_started env) (now_ended env)
                  (Some ((entry_after speech_result ai d)\<lparr>booking_info := Some (JObj kvs)\<rparr>)) kvs]\<rparr>,
          Inr [Say closing, Hangup])"
    using process_speech_wraps_up [OF h n r] by blast
  let ?s' = "fst (process_speech env call_sid speech_result s)"
  let ?e = "(entry_after speech_result ai d)\<lparr>booking_info := Some (JObj kvs)\<rparr>"
  let ?rec = "format_dashboard (now_started env) (now_ended env) (Some ?e) kvs"
  have sd: "session_data ?s' call_sid = Some ?e"
    by (simp add: ps session_data_def update_conv')
  have b: "booking_info ?e = Some (JObj kvs)" by simp
  have x': "extract_booking_info (extract_oracle env) (json_loads env) (join_lines (conversation ?e))
         = Inr (JObj kvs)"
    using x by simp
  have fl: "flagged ?s' call_sid \<longleftrightarrow> detect_emergency speech_result \<or> flagged s call_sid"
  proof -
    have "session_data s call_sid = Some d"
      using d by (simp add: session_data_def)
    then show ?thesis
      unfolding flagged_def sd by (simp add: data_is_emergency_def entry_after_fields)
  qed
  have ds: "dashboard ?s' = dashboard s @ [?rec]"
    by (simp add: ps)
  have u: "flagged ?s' call_sid \<longrightarrow> urgency ?rec = ''emergency'' \<and> dash_status ?rec = ''urgent''"
    unfolding flagged_def sd using format_dashboard_flag [of "Some ?e"] by simp
  show ?thesis
    using sd b x' fl ds u by blast
qed

theorem booking_record_is_extractor_output_witness:
  "\<exists>d kvs rec.
       session_data (fst (process_speech sample_env sample_sid ''Tomorrow at nine'' two_exchanges))
         sample_sid = Some d
     \<and> booking_info d = Some (JObj kvs)
     \<and> extract_booking_info (extract_oracle sample_env) (json_loads sample_env)
          (join_lines (conversation d)) = Inr (JObj kvs)
     \<and> dashboard (fst (process_speech sample_env sample_sid ''Tomorrow at nine'' two_exchanges))
         = dashboard two_exchanges @ [rec]"
proof -
  have r: "snd (process_speech sample_env sample_sid ''Tomorrow at nine'' two_exchanges)
             = Inr [Say closing, Hangup]"
    by code_simp
  show ?thesis
    using booking_record_is_extractor_output [OF r] by blast
qed

section \<open>The destination of the confirmation message\<close>

text \<open>
  The sample call with an extraction reply that does not parse: the session wraps up with
  the default record, whose phone entry is "Not provided". The caller's address is known,
  one dashboard record is published, and no message is sent to anyone.
\<close>

theorem no_fallback_counterexample:
  "map_option from_number (session_data (run init_state (sample_call garbled_env)) sample_sid)
     = Some (Some ''+441234567890'')
   \<and> map_option booking_info (session_data (run init_state (sample_call garbled_env)) sample_sid)
     = Some (Some (JObj
         [(''name'', JStr ''Not provided''),
          (''phone'', JStr ''Not provided''),
          (''address'', JStr ''Not provided''),
          (''issue'', JStr ''Not provided''),
          (''appointment_time'', JStr ''Not provided''),
          (''is_emergency'', JStr ''no'')]))
   \<and> length (dashboard (run init_state (sample_call garbled_env))) = 1
   \<and> sms_outbox (run init_state (sample_call garbled_env)) = []"
  by code_simp

text \<open>
  C7, as the code has it, for a session whose booking record is a dict. A phone entry of the
  record that is truthy and not "Not provided" is the destination, whatever the caller's
  address is. The caller's address is the destination only when the record has no phone
  entry at all (and the address is a non-empty string other than "Not provided"). A phone
  entry that is falsy or "Not provided" sends nothing and changes nothing, and so does a
  missing entry with no usable caller address.
\<close>

theorem sms_destination:
  assumes m: "session_data s call_sid = Some e"
    and b: "booking_info e = Some (JObj kvs)"
  shows "(\<forall>p. map_of kvs ''phone'' = Some p \<and> truthy p \<and> p \<noteq> JStr ''Not provided'' \<longrightarrow>
            send_confirmation_sms call_sid s =
              (s\<lparr>sms_outbox := sms_outbox s @
                  [\<lparr>to = p, sms_appointment_time = get_or kvs ''appointment_time'' JNull,
                    sms_issue = get_or kvs ''issue'' JNull\<rparr>]\<rparr>, Inr ()))
     \<and> (\<forall>c. map_of kvs ''phone'' = None \<and> from_number e = Some c \<and> c \<noteq> [] \<and> c \<noteq> ''Not provided'' \<longrightarrow>
            send_confirmation_sms call_sid s =
              (s\<lparr>sms_outbox := sms_outbox s @
                  [\<lparr>to = JStr c, sms_appointment_time = get_or kvs ''appointment_time'' JNull,
                    sms_issue = get_or kvs ''issue'' JNull\<rparr>]\<rparr>, Inr ()))
     \<and> (\<forall>p. map_of kvs ''phone'' = Some p \<and> (\<not> truthy p \<or> p = JStr ''Not provided'') \<longrightarrow>
            send_confirmation_sms call_sid s = (s, Inr ()))
     \<and> (map_of kvs ''phone'' = None
          \<and> (from_number e = None \<or> from_number e = Some [] \<or> from_number e = Some ''Not provided'') \<longrightarrow>
            send_confirmation_sms call_sid s = (s, Inr ()))"
proof -
  have m': "map_of (call_data s) call_sid = Some e"
    using m by (simp add: session_data_def)
  note eq = send_sms_dict [OF m' b]
  have 1: "\<forall>p. map_of kvs ''phone'' = Some p \<and> truthy p \<and> p \<noteq> JStr ''Not provided'' \<longrightarrow>
            send_confirmation_sms call_sid s =
              (s\<lparr>sms_outbox := sms_outbox s @
                  [\<lparr>to = p, sms_appointment_time = get_or kvs ''appointment_time'' JNull,
                    sms_issue = get_or kvs ''issue'' JNull\<rparr>]\<rparr>, Inr ())"
    unfolding eq by (simp add: get_or_def Let_def)
  have 2: "\<forall>c. map_of kvs ''phone'' = None \<and> from_number e = Some c \<and> c \<noteq> [] \<and> c \<noteq> ''Not provided'' \<longrightarrow>
            send_confirmation_sms call_sid s =
              (s\<lparr>sms_outbox := sms_outbox s @
                  [\<lparr>to = JStr c, sms_appointment_time = get_or kvs ''appointment_time'' JNull,
                    sms_issue = get_or kvs ''issue'' JNull\<rparr>]\<rparr>, Inr ())"
    unfolding eq by (simp add: get_or_def data_from_def Let_def)
  have 3: "\<forall>p. map_of kvs ''phone'' = Some p \<and> (\<not> truthy p \<or> p = JStr ''Not provided'') \<longrightarrow>
            send_confirmation_sms call_sid s = (s, Inr ())"
    unfolding eq by (auto simp: get_or_def Let_def)
  have 4: "map_of kvs ''phone'' = None
          \<and> (from_number e = None \<or> from_number e = Some [] \<or> from_number e = Some ''Not provided'') \<longrightarrow>
            send_confirmation_sms call_sid s = (s, Inr ())"
    unfolding eq by (auto simp: get_or_def data_from_def Let_def)
  show ?thesis
    using 1 2 3 4 by blast
qed

theorem sms_destination_witness:
  "send_confirmation_sms sample_sid (run init_state (sample_call sample_env)) =
     ((run init_state (sample_call sample_env))
        \<lparr>sms_outbox := sms_outbox (run init_state (sample_call sample_env)) @
           [\<lparr>to = JStr ''+447700900123'', sms_appointment_time = JStr ''tomorrow at nine'',
             sms_issue = JStr ''burst pipe''\<rparr>]\<rparr>, Inr ())"
proof -
  define kvs where "kvs =
         [(''name'', JStr ''Sam''),
          (''phone'', JStr ''+447700900123''),
          (''address'', JStr ''Not provided''),
          (''issue'', JStr ''burst pipe''),
          (''appointment_time'', JStr ''tomorrow at nine''),
          (''is_emergency'', JStr ''no'')]"
  define e where "e =
     \<lparr>from_number = Some ''+441234567890'', started_at = 0,
      conversation =
        [''Customer: I have a burst pipe!'',
         ''Bot: Could I take your name and address, please?'',
         ''Customer: My name is Sam'',
         ''Bot: Could I take your name and address, please?'',
         ''Customer: Tomorrow at nine'',
         ''Bot: Could I take your name and address, please?''],
      is_emergency = Some True, booking_info = Some (JObj kvs), status = None, ended_at = None\<rparr>"
  have m: "session_data (run init_state (sample_call sample_env)) sample_sid = Some e"
    unfolding e_def kvs_def by code_simp
  have b: "booking_info e = Some (JObj kvs)"
    by (simp add: e_def)
  have p: "map_of kvs ''phone'' = Some (JStr ''+447700900123'')"
    by (simp add: kvs_def)
  have g: "get_or kvs ''appointment_time'' JNull = JStr ''tomorrow at nine''"
    "get_or kvs ''issue'' JNull = JStr ''burst pipe''"
    by (simp_all add: kvs_def get_or_def)
  show ?thesis
    using sms_destination [OF m b] p g by simp
qed

section \<open>Extraction fallback\<close>



text \<open>An answer that parses is returned as parsed, whatever its shape.\<close>

lemma extract_returns_parsed:
  "oracle_extract (extraction_prompt conversation_text) = Returns response_content
   \<Longrightarrow> parse response_content = Some v
   \<Longrightarrow> extract_booking_info oracle_extract parse conversation_text = Inr v"
  by (simp add: extract_booking_info_def)

section \<open>Unknown identifiers\<close>

text \<open>
  C9. For an identifier with no entry in either dict, \<open>/process_speech\<close> fails with
  \<open>KeyError\<close> and leaves the store as it was (no session is created, no response is built),
  whereas \<open>/call_status\<close> acknowledges and leaves the store as it was, and the read
  endpoint never changes the store.
\<close>

theorem unknown_identifier:
  "session_history s call_sid = None \<Longrightarrow> session_data s call_sid = None
   \<Longrightarrow> process_speech env call_sid speech_result s = (s, Inl KeyError)
     \<and> step s (ProcessSpeech env call_sid speech_result) = (s, Inl KeyError)
     \<and> step s (CallStatus call_sid v now) = (s, Inr StatusOk)
     \<and> fst (step s GetCalls) = s"
  by (simp add: session_history_def session_data_def process_speech_unknown call_status_def)

theorem unknown_identifier_witness:
  "process_speech sample_env (Some ''CA999'') ''hello'' two_exchanges = (two_exchanges, Inl KeyError)
   \<and> step two_exchanges (CallStatus (Some ''CA999'') (Some ''completed'') 7) = (two_exchanges, Inr StatusOk)"
proof -
  have h: "session_history two_exchanges (Some ''CA999'') = None"
    by code_simp
  have d: "session_data two_exchanges (Some ''CA999'') = None"
    by code_simp
  show ?thesis
    using unknown_identifier [OF h d] by simp
qed

section \<open>Lookup or create\<close>



section \<open>The two dicts have the same keys\<close>

text \<open>
  C10. The identifiers with a message history are the identifiers with call data: this holds
  of the empty store, every request keeps it, and no request removes an identifier from
  either dict. Hence it holds after every run of requests.
\<close>

theorem store_keys_invariant:
  "store_inv init_state
   \<and> (store_inv s \<longrightarrow>
        store_inv (fst (step s e))
      \<and> fst ` set (conversations s) \<subseteq> fst ` set (conversations (fst (step s e)))
      \<and> fst ` set (call_data s) \<subseteq> fst ` set (call_data (fst (step s e))))
   \<and> (store_inv s \<longrightarrow> store_inv (run s es))
   \<and> store_inv (run init_state es)"
  using init_inv step_inv [of s e] step_keys [of s e] run_inv [of s es] run_inv [OF init_inv, of es]
  by blast

theorem store_keys_invariant_witness:
  "store_inv two_exchanges
   \<and> store_inv (fst (step two_exchanges (Voice (Some ''CA999'') None 5)))
   \<and> fst ` set (call_data two_exchanges)
        \<subseteq> fst ` set (call_data (fst (step two_exchanges (Voice (Some ''CA999'') None 5))))"
proof -
  have i: "store_inv two_exchanges"
    unfolding two_exchanges_def
    using store_keys_invariant [of init_state GetCalls "take 3 (sample_call sample_env)"]
    by blast
  show ?thesis
    using i store_keys_invariant [of two_exchanges "Voice (Some ''CA999'') None 5" "[]"]
    by blast
qed

section \<open>The emergency flag is monotonic\<close>

text \<open>
  C4. Once the flag of a session is set, it stays set through every run of requests
  (call-starts, utterances with any text and any oracle behaviour, status updates, reads):
  from any store whose two dicts have the same keys, and so from every store that a run
  of requests reaches from the empty one.
\<close>

theorem emergency_flag_monotonic:
  "(store_inv s \<and> flagged s call_sid \<longrightarrow> flagged (run s es) call_sid)
   \<and> (flagged (run init_state es0) call_sid \<longrightarrow> flagged (run init_state (es0 @ es)) call_sid)"
  using run_flag [of s call_sid es] run_flag [OF run_inv [OF init_inv], of es0 call_sid es]
  by (simp add: run_append)

theorem emergency_flag_monotonic_witness:
  "flagged (run init_state (take 3 (sample_call sample_env))) sample_sid
   \<and> flagged (run init_state (take 3 (sample_call sample_env)
        @ [ProcessSpeech sample_env sample_sid ''no, all is fine'',
           CallStatus sample_sid (Some ''completed'') 9,
           Voice sample_sid None 10, GetCalls])) sample_sid"
proof -
  have f: "flagged (run init_state (take 3 (sample_call sample_env))) sample_sid"
    by code_simp
  show ?thesis
    using f emergency_flag_monotonic [where call_sid = sample_sid
        and ?es0.0 = "take 3 (sample_call sample_env)"
        and es = "[ProcessSpeech sample_env sample_sid ''no, all is fine'',
           CallStatus sample_sid (Some ''completed'') 9,
           Voice sample_sid None 10, GetCalls]"]
    by blast
qed

end
